theory Spec2Isabelle
  imports
    Complex_Main
    "HOL-Library.Char_ord"
    "HOL-Library.List_Lexorder"
    "HOL-Library.Product_Lexorder"
    "HOL-Library.Multiset"
    "HOL-Library.Sublist"
    "HOL-Library.AList"
begin

section \<open>Expense tables\<close>

text \<open>
  One row of the table read by \<open>get_expenses\<close>, with the four columns that
  \<open>expenses.py\<close> uses. Cells are present strings (no missing values); amounts are exact
  rationals, so sums are associative and commutative (binary rounding is not modelled).
\<close>

record expense =
  ds_funcao_governo :: string
  ds_subfuncao_governo :: string
  tp_despesa :: string
  vl_despesa :: rat

type_synonym dataframe = "expense list"

text \<open>
  The exceptions of the program: a label lookup (\<open>.loc\<close>) that misses raises
  \<open>KeyError\<close> with the label; assigning an index of the wrong length raises
  \<open>ValueError\<close>; whatever \<open>get_expenses\<close> raises is a \<open>FetchError\<close>.
\<close>

datatype error = KeyError string | ValueError | FetchError string

subsection \<open>Column comparison, boolean indexing, unique\<close>

definition eq_mask :: "string list \<Rightarrow> string \<Rightarrow> bool list" where
  "eq_mask col v = map (\<lambda>x. x = v) col"

definition bool_index :: "'a list \<Rightarrow> bool list \<Rightarrow> 'a list" where
  "bool_index df flags = map fst (filter snd (zip df flags))"

text \<open>\<open>Series.unique()\<close>: the distinct values in order of first appearance.\<close>

fun unique :: "'a list \<Rightarrow> 'a list" where
  "unique [] = []"
| "unique (x # xs) = x # unique (filter (\<lambda>y. y \<noteq> x) xs)"

subsection \<open>The filters and enumerations of the source\<close>

definition only_paid :: "dataframe \<Rightarrow> dataframe" where
  "only_paid df = bool_index df (eq_mask (map tp_despesa df) ''Valor Pago'')"

definition get_all_themes :: "dataframe \<Rightarrow> string list" where
  "get_all_themes df = unique (map ds_funcao_governo df)"

definition get_all_subthemes_of :: "dataframe \<Rightarrow> string \<Rightarrow> string list" where
  "get_all_subthemes_of df theme =
     unique (map ds_subfuncao_governo
       (bool_index df (eq_mask (map ds_funcao_governo df) theme)))"

subsection \<open>Grouping\<close>

text \<open>
  \<open>df.groupby(key).agg(f)\<close>: one entry per distinct key, keys in ascending order
  (\<open>sort=True\<close> is the default), each group holding its rows in table order.
\<close>

definition groupby_agg ::
  "(expense \<Rightarrow> 'k::linorder) \<Rightarrow> (expense list \<Rightarrow> 'v) \<Rightarrow> dataframe \<Rightarrow> ('k \<times> 'v) list" where
  "groupby_agg key agg df =
     map (\<lambda>k. (k, agg (filter (\<lambda>r. key r = k) df))) (sort (unique (map key df)))"

definition group_by_theme :: "dataframe \<Rightarrow> (string \<times> rat \<times> string list) list" where
  "group_by_theme df =
     groupby_agg ds_funcao_governo
       (\<lambda>g. (sum_list (map vl_despesa g), unique (map ds_subfuncao_governo g))) df"

definition group_by_theme_and_subtheme :: "dataframe \<Rightarrow> ((string \<times> string) \<times> rat) list" where
  "group_by_theme_and_subtheme df =
     groupby_agg (\<lambda>r. (ds_funcao_governo r, ds_subfuncao_governo r))
       (\<lambda>g. sum_list (map vl_despesa g)) df"

text \<open>\<open>.loc[k]\<close> on a table indexed by one label.\<close>

definition loc :: "(string \<times> 'v) list \<Rightarrow> string \<Rightarrow> error + 'v" where
  "loc tbl k = (case map_of tbl k of None \<Rightarrow> Inl (KeyError k) | Some v \<Rightarrow> Inr v)"

text \<open>
  \<open>.loc[k]\<close> on a table indexed by pairs: the rows whose first label is \<open>k\<close>, indexed by
  their second label; \<open>KeyError\<close> when there is none.
\<close>

definition loc_level0 ::
  "((string \<times> string) \<times> 'v) list \<Rightarrow> string \<Rightarrow> error + (string \<times> 'v) list" where
  "loc_level0 tbl k =
     (let rows = filter (\<lambda>p. fst (fst p) = k) tbl
      in if rows = [] then Inl (KeyError k)
         else Inr (map (\<lambda>p. (snd (fst p), snd p)) rows))"

definition group_by_subtheme :: "dataframe \<Rightarrow> string \<Rightarrow> error + (string \<times> rat) list" where
  "group_by_subtheme df theme = loc_level0 (group_by_theme_and_subtheme df) theme"

section \<open>Historical series\<close>

text \<open>
  The table a historical function builds. A row is the list of its cells by column, in
  column order; a column the row does not have is a missing cell (\<open>NaN\<close>). The per-year
  table \<open>year_df\<close> has no row before the first column is assigned and one row after, so it
  is modelled by that row, the empty list being the empty table.
\<close>

type_synonym year_row = "(string \<times> rat) list"

record frame =
  findex :: "int list"
  fcolumns :: "string list"
  frows :: "year_row list"

definition empty_frame :: frame where
  "empty_frame = \<lparr>findex = [], fcolumns = [], frows = []\<rparr>"

text \<open>
  \<open>pd.DataFrame.append(full_df, year_df)\<close>: the rows of \<open>year_df\<close> after those of
  \<open>full_df\<close>, the columns of \<open>full_df\<close> followed by the new ones; an empty \<open>year_df\<close> adds
  nothing. The appended row keeps its own label \<open>0\<close>.
\<close>

definition append_frame :: "frame \<Rightarrow> year_row \<Rightarrow> frame" where
  "append_frame full_df year_df =
     (if year_df = [] then full_df
      else \<lparr>findex = findex full_df @ [0],
            fcolumns = fcolumns full_df
              @ filter (\<lambda>c. c \<notin> set (fcolumns full_df)) (map fst year_df),
            frows = frows full_df @ [year_df]\<rparr>)"

text \<open>
  \<open>full_df.index = labels\<close>: on a table with no columns any list of labels is accepted
  and the table gets one row without cells per label; on a table with columns the number
  of labels must be the number of rows, else \<open>ValueError\<close>.
\<close>

definition set_index :: "frame \<Rightarrow> int list \<Rightarrow> error + frame" where
  "set_index full_df labels =
     (if fcolumns full_df = []
      then Inr \<lparr>findex = labels, fcolumns = [], frows = replicate (length labels) []\<rparr>
      else if length labels \<noteq> length (frows full_df) then Inl ValueError
      else Inr (full_df\<lparr>findex := labels\<rparr>))"

definition cell :: "frame \<Rightarrow> nat \<Rightarrow> string \<Rightarrow> rat option" where
  "cell f i c = map_of (frows f ! i) c"

definition theme_column :: "string \<Rightarrow> string" where
  "theme_column theme = ''vl_despesa_'' @ theme"

definition subtheme_column :: "string \<Rightarrow> string \<Rightarrow> string" where
  "subtheme_column theme subtheme = ''vl_despesa_'' @ theme @ ''_'' @ subtheme"

text \<open>The loop over \<open>themes\<close> of \<open>get_themed_historical\<close>, on one year's paid table.\<close>

fun themed_row :: "dataframe \<Rightarrow> string list \<Rightarrow> year_row \<Rightarrow> error + year_row" where
  "themed_row paid_df [] year_df = Inr year_df"
| "themed_row paid_df (theme # themes) year_df =
     (case loc (group_by_theme paid_df) theme of
        Inl e \<Rightarrow> Inl e
      | Inr theme_df \<Rightarrow>
          themed_row paid_df themes
            (AList.update (theme_column theme) (fst theme_df) year_df))"

text \<open>The loop over the pairs of \<open>get_subthemed_historical\<close>.\<close>

fun subthemed_row ::
  "dataframe \<Rightarrow> (string \<times> string) list \<Rightarrow> year_row \<Rightarrow> error + year_row" where
  "subthemed_row paid_df [] year_df = Inr year_df"
| "subthemed_row paid_df ((theme, subtheme) # subthemes) year_df =
     (case group_by_subtheme paid_df theme of
        Inl e \<Rightarrow> Inl e
      | Inr subthemes_df \<Rightarrow>
          (case loc subthemes_df subtheme of
             Inl e \<Rightarrow> Inl e
           | Inr theme_df \<Rightarrow>
               subthemed_row paid_df subthemes
                 (AList.update (subtheme_column theme subtheme) theme_df year_df)))"

text \<open>The two nested loops of \<open>get_all_subthemes_historical\<close>.\<close>

fun subtheme_cells ::
  "(string \<times> rat) list \<Rightarrow> string \<Rightarrow> string list \<Rightarrow> year_row \<Rightarrow> error + year_row" where
  "subtheme_cells subthemes_df theme [] year_df = Inr year_df"
| "subtheme_cells subthemes_df theme (subtheme # subthemes) year_df =
     (case loc subthemes_df subtheme of
        Inl e \<Rightarrow> Inl e
      | Inr subtheme_df \<Rightarrow>
          subtheme_cells subthemes_df theme subthemes
            (AList.update (subtheme_column theme subtheme) subtheme_df year_df))"

fun all_subthemes_row :: "dataframe \<Rightarrow> string list \<Rightarrow> year_row \<Rightarrow> error + year_row" where
  "all_subthemes_row paid_df [] year_df = Inr year_df"
| "all_subthemes_row paid_df (theme # themes) year_df =
     (let subthemes = get_all_subthemes_of paid_df theme
      in case group_by_subtheme paid_df theme of
           Inl e \<Rightarrow> Inl e
         | Inr subthemes_df \<Rightarrow>
             (case subtheme_cells subthemes_df theme subthemes year_df of
                Inl e \<Rightarrow> Inl e
              | Inr year_df' \<Rightarrow> all_subthemes_row paid_df themes year_df'))"

text \<open>
  The loop over \<open>years\<close>, which the three functions share word for word: fetch, filter
  to paid, build the year's row with \<open>build\<close>, append. \<open>get_expenses\<close> does network and
  file input, so it is a parameter: a function from city and year to a table or an error.
\<close>

fun historical_loop ::
  "(string \<Rightarrow> int \<Rightarrow> error + dataframe) \<Rightarrow> string \<Rightarrow> (dataframe \<Rightarrow> error + year_row)
     \<Rightarrow> int list \<Rightarrow> frame \<Rightarrow> error + frame" where
  "historical_loop get_expenses city build [] full_df = Inr full_df"
| "historical_loop get_expenses city build (year # years) full_df =
     (case get_expenses city year of
        Inl e \<Rightarrow> Inl e
      | Inr df \<Rightarrow>
          (case build (only_paid df) of
             Inl e \<Rightarrow> Inl e
           | Inr year_df \<Rightarrow>
               historical_loop get_expenses city build years (append_frame full_df year_df)))"

definition historical ::
  "(string \<Rightarrow> int \<Rightarrow> error + dataframe) \<Rightarrow> string \<Rightarrow> int list
     \<Rightarrow> (dataframe \<Rightarrow> error + year_row) \<Rightarrow> error + frame" where
  "historical get_expenses city years build =
     (case historical_loop get_expenses city build years empty_frame of
        Inl e \<Rightarrow> Inl e
      | Inr full_df \<Rightarrow> set_index full_df years)"

definition get_themed_historical ::
  "(string \<Rightarrow> int \<Rightarrow> error + dataframe) \<Rightarrow> string \<Rightarrow> int list \<Rightarrow> string list
     \<Rightarrow> error + frame" where
  "get_themed_historical get_expenses city years themes =
     historical get_expenses city years (\<lambda>paid_df. themed_row paid_df themes [])"

definition get_subthemed_historical ::
  "(string \<Rightarrow> int \<Rightarrow> error + dataframe) \<Rightarrow> string \<Rightarrow> int list \<Rightarrow> (string \<times> string) list
     \<Rightarrow> error + frame" where
  "get_subthemed_historical get_expenses city years subthemes =
     historical get_expenses city years (\<lambda>paid_df. subthemed_row paid_df subthemes [])"

definition get_all_subthemes_historical ::
  "(string \<Rightarrow> int \<Rightarrow> error + dataframe) \<Rightarrow> string \<Rightarrow> int list \<Rightarrow> string list
     \<Rightarrow> error + frame" where
  "get_all_subthemes_historical get_expenses city years themes =
     historical get_expenses city years (\<lambda>paid_df. all_subthemes_row paid_df themes [])"

section \<open>Example data\<close>

definition hospitais_pago :: expense where
  "hospitais_pago = \<lparr>ds_funcao_governo = ''Saude'', ds_subfuncao_governo = ''Hospitais'',
     tp_despesa = ''Valor Pago'', vl_despesa = 100.5\<rparr>"

definition clinicas_pago :: expense where
  "clinicas_pago = \<lparr>ds_funcao_governo = ''Saude'', ds_subfuncao_governo = ''Clinicas'',
     tp_despesa = ''Valor Pago'', vl_despesa = 50.25\<rparr>"

definition hospitais_empenhado :: expense where
  "hospitais_empenhado = \<lparr>ds_funcao_governo = ''Saude'', ds_subfuncao_governo = ''Hospitais'',
     tp_despesa = ''Empenhado'', vl_despesa = 999\<rparr>"

definition vigilancia_empenhado :: expense where
  "vigilancia_empenhado = \<lparr>ds_funcao_governo = ''Saude'', ds_subfuncao_governo = ''Vigilancia'',
     tp_despesa = ''Empenhado'', vl_despesa = 7\<rparr>"

definition ensino_pago :: expense where
  "ensino_pago = \<lparr>ds_funcao_governo = ''Educacao'', ds_subfuncao_governo = ''Ensino'',
     tp_despesa = ''Valor Pago'', vl_despesa = 200\<rparr>"

definition table_2019 :: dataframe where
  "table_2019 = [hospitais_pago, clinicas_pago, hospitais_empenhado, vigilancia_empenhado]"

definition table_2020 :: dataframe where
  "table_2020 = [ensino_pago, hospitais_pago]"

definition table_2021 :: dataframe where
  "table_2021 = [vigilancia_empenhado]"

definition example_expenses :: "string \<Rightarrow> int \<Rightarrow> error + dataframe" where
  "example_expenses city year =
     (if year = 2019 then Inr table_2019
      else if year = 2020 then Inr table_2020
      else if year = 2021 then Inr table_2021
      else Inl (FetchError ''HTTP Error 404''))"

definition example_series :: frame where
  "example_series =
     \<lparr>findex = [2019, 2020],
      fcolumns = [''vl_despesa_Saude_Hospitais'', ''vl_despesa_Saude_Clinicas''],
      frows = [[(''vl_despesa_Saude_Hospitais'', 100.5), (''vl_despesa_Saude_Clinicas'', 50.25)],
               [(''vl_despesa_Saude_Hospitais'', 100.5)]]\<rparr>"

text \<open>A year's row was built: the fetch succeeded and the row builder returned the row.\<close>

definition year_built ::
  "(string \<Rightarrow> int \<Rightarrow> error + dataframe) \<Rightarrow> string \<Rightarrow> (dataframe \<Rightarrow> error + year_row)
     \<Rightarrow> int \<Rightarrow> year_row \<Rightarrow> bool" where
  "year_built get_expenses city build year row \<longleftrightarrow>
     (\<exists>df. get_expenses city year = Inr df \<and> build (only_paid df) = Inr row)"

section \<open>Basic facts\<close>

lemma bool_index_map: "bool_index df (map P df) = filter P df"
  unfolding bool_index_def by (induction df) auto

lemma eq_mask_map: "eq_mask (map f df) v = map (\<lambda>r. f r = v) df"
  unfolding eq_mask_def by simp

lemma only_paid_filter: "only_paid df = filter (\<lambda>r. tp_despesa r = ''Valor Pago'') df"
  unfolding only_paid_def by (simp only: eq_mask_map bool_index_map)

lemma set_unique [simp]: "set (unique xs) = set xs"
  by (induction xs rule: unique.induct) auto

lemma distinct_unique [simp]: "distinct (unique xs)"
  by (induction xs rule: unique.induct) auto

lemmas example_defs =
  table_2019_def table_2020_def table_2021_def hospitais_pago_def clinicas_pago_def
  hospitais_empenhado_def vigilancia_empenhado_def ensino_pago_def

section \<open>The payment filter\<close>

text \<open>
  C8: \<open>only_paid\<close> returns the subsequence of the records whose status is the paid marker
  \<open>Valor Pago\<close>, in the original order: the result is a subsequence of the table, it is
  exactly the list of the paid records (so each is kept as often as it occurs), and the
  empty table gives the empty table.
\<close>

theorem only_paid_subsequence:
  "subseq (only_paid df) df
   \<and> only_paid df = filter (\<lambda>r. tp_despesa r = ''Valor Pago'') df
   \<and> set (only_paid df) = {r \<in> set df. tp_despesa r = ''Valor Pago''}
   \<and> only_paid [] = []"
  by (simp add: only_paid_filter)

text \<open>C9: \<open>only_paid\<close> is idempotent.\<close>

theorem only_paid_idempotent: "only_paid (only_paid df) = only_paid df"
  by (simp add: only_paid_filter)

section \<open>Facts about grouping\<close>

lemma sum_list_delta:
  "distinct ks \<Longrightarrow> sum_list (map (\<lambda>k. if a = k then (c::rat) else 0) ks) = (if a \<in> set ks then c else 0)"
  by (induction ks) auto

lemma sum_list_groups:
  fixes f :: "'a \<Rightarrow> rat"
  assumes "distinct ks" and "key ` set xs \<subseteq> set ks"
  shows "sum_list (map (\<lambda>k. sum_list (map f (filter (\<lambda>r. key r = k) xs))) ks) = sum_list (map f xs)"
  using assms(2)
proof (induction xs)
  case Nil
  then show ?case by simp
next
  case (Cons x xs)
  have "sum_list (map (\<lambda>k. sum_list (map f (filter (\<lambda>r. key r = k) (x # xs)))) ks)
      = sum_list (map (\<lambda>k. (if key x = k then f x else 0)
            + sum_list (map f (filter (\<lambda>r. key r = k) xs))) ks)"
    by (rule arg_cong [where f = sum_list], rule map_cong) auto
  also have "\<dots> = sum_list (map (\<lambda>k. if key x = k then f x else 0) ks)
        + sum_list (map (\<lambda>k. sum_list (map f (filter (\<lambda>r. key r = k) xs))) ks)"
    by (simp add: sum_list_addf)
  also have "\<dots> = f x + sum_list (map f xs)"
    using Cons assms(1) by (simp add: sum_list_delta)
  finally show ?case by simp
qed

lemma sort_unique: "sort (unique xs) = sorted_list_of_set (set xs)"
  by (rule sorted_distinct_set_unique) simp_all

lemma sum_list_sort: "sum_list (map (g :: 'k::linorder \<Rightarrow> rat) (sort ks)) = sum_list (map g ks)"
proof -
  have "sum_list (map g (sort ks)) = sum_mset (image_mset g (mset (sort ks)))"
    by (metis mset_map sum_mset_sum_list)
  also have "\<dots> = sum_list (map g ks)"
    by (metis mset_sort mset_map sum_mset_sum_list)
  finally show ?thesis .
qed

lemma groupby_totals:
  "sum_list (map (\<lambda>k. sum_list (map vl_despesa (filter (\<lambda>r. key r = k) df)))
       (sort (unique (map key df)))) = sum_list (map vl_despesa df)"
  by (rule sum_list_groups) simp_all

lemma sum_list_filter_mset:
  "sum_list (map (f::'a \<Rightarrow> rat) (filter P xs)) = sum_mset (image_mset f (filter_mset P (mset xs)))"
  by (metis mset_filter mset_map sum_mset_sum_list)

lemma loc_groupby:
  "loc (groupby_agg key agg df) k =
     (if k \<in> key ` set df then Inr (agg (filter (\<lambda>r. key r = k) df)) else Inl (KeyError k))"
  unfolding loc_def groupby_agg_def
  by (simp add: map_of_map_restrict restrict_map_def)

lemma filter_groupby:
  "filter (\<lambda>p. Q (fst p)) (groupby_agg key agg df)
     = map (\<lambda>k. (k, agg (filter (\<lambda>r. key r = k) df))) (filter Q (sort (unique (map key df))))"
  unfolding groupby_agg_def by (simp add: filter_map comp_def)

lemma group_by_subtheme_eq:
  "group_by_subtheme df theme =
    (if theme \<in> ds_funcao_governo ` set df
     then Inr (map (\<lambda>k. (snd k, sum_list (map vl_despesa
                 (filter (\<lambda>r. (ds_funcao_governo r, ds_subfuncao_governo r) = k) df))))
            (filter (\<lambda>k. fst k = theme)
               (sort (unique (map (\<lambda>r. (ds_funcao_governo r, ds_subfuncao_governo r)) df)))))
     else Inl (KeyError theme))"
proof -
  let ?key = "\<lambda>r. (ds_funcao_governo r, ds_subfuncao_governo r)"
  let ?ks = "sort (unique (map ?key df))"
  have e: "filter (\<lambda>k. fst k = theme) ?ks = [] \<longleftrightarrow> theme \<notin> ds_funcao_governo ` set df"
    by (auto simp: filter_empty_conv image_iff)
  have f: "filter (\<lambda>p. fst (fst p) = theme) (groupby_agg ?key agg df)
      = map (\<lambda>k. (k, agg (filter (\<lambda>r. ?key r = k) df))) (filter (\<lambda>k. fst k = theme) ?ks)" for agg :: "expense list \<Rightarrow> rat"
    unfolding groupby_agg_def by (simp add: filter_map comp_def)
  show ?thesis
    unfolding group_by_subtheme_def loc_level0_def group_by_theme_and_subtheme_def Let_def f
    using e by (simp add: comp_def)
qed

lemma sorted_subthemes:
  fixes ks :: "(string \<times> string) list"
  shows "sorted ks \<Longrightarrow> sorted (map snd (filter (\<lambda>k. fst k = theme) ks))"
  by (induction ks) (auto simp: less_eq_prod_def)

lemma distinct_subthemes:
  fixes ks :: "(string \<times> string) list"
  shows "distinct ks \<Longrightarrow> distinct (map snd (filter (\<lambda>k. fst k = theme) ks))"
  by (induction ks) (auto simp: image_iff)

lemma subtheme_keys:
  "map snd (filter (\<lambda>k. fst k = theme)
       (sort (unique (map (\<lambda>r. (ds_funcao_governo r, ds_subfuncao_governo r)) df))))
   = sorted_list_of_set (ds_subfuncao_governo ` {r \<in> set df. ds_funcao_governo r = theme})"
  by (rule sorted_distinct_set_unique)
     (auto simp: sorted_subthemes distinct_subthemes image_iff)

lemma get_all_subthemes_of_eq:
  "get_all_subthemes_of df theme =
     unique (map ds_subfuncao_governo (filter (\<lambda>r. ds_funcao_governo r = theme) df))"
  unfolding get_all_subthemes_of_def by (simp only: eq_mask_map bool_index_map)

lemma sort_subthemes_of:
  "sort (get_all_subthemes_of df theme) =
     map snd (filter (\<lambda>k. fst k = theme)
       (sort (unique (map (\<lambda>r. (ds_funcao_governo r, ds_subfuncao_governo r)) df))))"
proof -
  have "sort (get_all_subthemes_of df theme)
      = sorted_list_of_set (ds_subfuncao_governo ` {r \<in> set df. ds_funcao_governo r = theme})"
    unfolding get_all_subthemes_of_eq sort_unique
    by (rule arg_cong [where f = sorted_list_of_set]) auto
  then show ?thesis
    by (simp only: subtheme_keys)
qed

section \<open>Totals by theme and by subtheme\<close>

text \<open>
  C1: for every table \<open>T\<close>, the totals that \<open>group_by_theme\<close> gives on the paid-filtered
  table, summed over all themes, equal the sum of the amounts of the records of \<open>T\<close>
  whose status is the paid marker.
\<close>

theorem theme_totals_partition_paid_total:
  "sum_list (map (\<lambda>e. fst (snd e)) (group_by_theme (only_paid T)))
     = sum_list (map vl_despesa (filter (\<lambda>r. tp_despesa r = ''Valor Pago'') T))"
proof -
  have "sum_list (map (\<lambda>e. fst (snd e)) (group_by_theme df)) = sum_list (map vl_despesa df)" for df
    unfolding group_by_theme_def groupby_agg_def
    by (simp add: comp_def groupby_totals)
  then show ?thesis by (simp add: only_paid_filter)
qed

text \<open>
  C2: for every theme present in \<open>T\<close>, the lookup of the theme in \<open>group_by_theme T\<close>
  succeeds, \<open>group_by_subtheme T theme\<close> succeeds, and the theme's total is the sum of its
  subtheme totals.
\<close>

theorem theme_total_is_sum_of_subtheme_totals:
  assumes "theme \<in> ds_funcao_governo ` set T"
  shows "\<exists>total subthemes totals.
           loc (group_by_theme T) theme = Inr (total, subthemes)
         \<and> group_by_subtheme T theme = Inr totals
         \<and> total = sum_list (map snd totals)"
proof -
  let ?key = "\<lambda>r. (ds_funcao_governo r, ds_subfuncao_governo r)"
  let ?ks = "filter (\<lambda>k. fst k = theme) (sort (unique (map ?key T)))"
  let ?rows = "filter (\<lambda>r. ds_funcao_governo r = theme) T"
  have a: "map (\<lambda>k. sum_list (map vl_despesa (filter (\<lambda>r. ?key r = k) T))) ?ks
      = map (\<lambda>k. sum_list (map vl_despesa (filter (\<lambda>r. ?key r = k) ?rows))) ?ks"
    by (rule map_cong) (auto intro!: arg_cong [where f = sum_list] arg_cong [where f = "map vl_despesa"] filter_cong)
  have b: "sum_list (map (\<lambda>k. sum_list (map vl_despesa (filter (\<lambda>r. ?key r = k) ?rows))) ?ks)
      = sum_list (map vl_despesa ?rows)"
    by (rule sum_list_groups) auto
  have "sum_list (map (\<lambda>k. sum_list (map vl_despesa (filter (\<lambda>r. ?key r = k) T))) ?ks)
      = sum_list (map vl_despesa ?rows)"
    unfolding a by (rule b)
  then show ?thesis
    using assms
    by (simp add: group_by_theme_def loc_groupby group_by_subtheme_eq comp_def)
qed

theorem theme_total_is_sum_of_subtheme_totals_witness:
  "''Saude'' \<in> ds_funcao_governo ` set table_2019
   \<and> (\<exists>total subthemes totals.
           loc (group_by_theme table_2019) ''Saude'' = Inr (total, subthemes)
         \<and> group_by_subtheme table_2019 ''Saude'' = Inr totals
         \<and> total = sum_list (map snd totals))"
proof -
  have h: "''Saude'' \<in> ds_funcao_governo ` set table_2019"
    by (simp add: example_defs)
  show ?thesis
    using h theme_total_is_sum_of_subtheme_totals [OF h] by blast
qed

text \<open>
  C5: \<open>group_by_subtheme df theme\<close> raises \<open>KeyError\<close> (the spec's UnknownTheme) when
  no record of the table has the theme; when some record has it, the result is the table
  of the theme's subthemes, in ascending order, each with the sum of the amounts of the
  records of that theme and subtheme.
\<close>

theorem group_by_subtheme_lookup:
  "(theme \<notin> ds_funcao_governo ` set df \<longrightarrow>
      group_by_subtheme df theme = Inl (KeyError theme))
   \<and> (theme \<in> ds_funcao_governo ` set df \<longrightarrow>
      group_by_subtheme df theme =
        Inr (map (\<lambda>s. (s, sum_list (map vl_despesa
                 (filter (\<lambda>r. ds_funcao_governo r = theme \<and> ds_subfuncao_governo r = s) df))))
             (sort (get_all_subthemes_of df theme))))"
proof -
  let ?ks = "filter (\<lambda>k. fst k = theme)
       (sort (unique (map (\<lambda>r. (ds_funcao_governo r, ds_subfuncao_governo r)) df)))"
  have "map (\<lambda>k. (snd k, sum_list (map vl_despesa
                 (filter (\<lambda>r. (ds_funcao_governo r, ds_subfuncao_governo r) = k) df)))) ?ks
      = map ((\<lambda>s. (s, sum_list (map vl_despesa
                 (filter (\<lambda>r. ds_funcao_governo r = theme \<and> ds_subfuncao_governo r = s) df)))) \<circ> snd) ?ks"
    by (rule map_cong) auto
  then show ?thesis
    by (simp add: group_by_subtheme_eq sort_subthemes_of)
qed

theorem group_by_subtheme_lookup_witness:
  "''Educacao'' \<notin> ds_funcao_governo ` set table_2019
   \<and> group_by_subtheme table_2019 ''Educacao'' = Inl (KeyError ''Educacao'')
   \<and> ''Saude'' \<in> ds_funcao_governo ` set table_2019
   \<and> group_by_subtheme table_2019 ''Saude'' =
       Inr [(''Clinicas'', 50.25), (''Hospitais'', 1099.5), (''Vigilancia'', 7)]"
proof -
  have a: "''Educacao'' \<notin> ds_funcao_governo ` set table_2019"
    by (simp add: example_defs)
  have b: "''Saude'' \<in> ds_funcao_governo ` set table_2019"
    by (simp add: example_defs)
  have c: "sort (get_all_subthemes_of table_2019 ''Saude'') = [''Clinicas'', ''Hospitais'', ''Vigilancia'']"
    by (simp add: get_all_subthemes_of_eq example_defs)
  from a have "group_by_subtheme table_2019 ''Educacao'' = Inl (KeyError ''Educacao'')"
    using group_by_subtheme_lookup [of "''Educacao''" table_2019] by blast
  moreover from b have "group_by_subtheme table_2019 ''Saude'' =
       Inr [(''Clinicas'', 50.25), (''Hospitais'', 1099.5), (''Vigilancia'', 7)]"
    using group_by_subtheme_lookup [of "''Saude''" table_2019]
    unfolding c by (simp add: example_defs)
  ultimately show ?thesis
    using a b by blast
qed

text \<open>
  C7: \<open>group_by_theme_and_subtheme\<close> does not depend on the order of the records: two
  tables with the same records (as multisets) have the same grouped result, keys, totals
  and order of the entries alike.
\<close>

theorem grouping_order_independent:
  assumes "mset T' = mset T"
  shows "group_by_theme_and_subtheme T' = group_by_theme_and_subtheme T"
proof -
  have "set T' = set T" using assms by (metis set_mset_mset)
  then show ?thesis
    unfolding group_by_theme_and_subtheme_def groupby_agg_def
    by (simp add: sort_unique sum_list_filter_mset assms)
qed

theorem grouping_order_independent_witness:
  "mset (rev table_2019) = mset table_2019
   \<and> group_by_theme_and_subtheme (rev table_2019) = group_by_theme_and_subtheme table_2019"
proof -
  have h: "mset (rev table_2019) = mset table_2019"
    by simp
  show ?thesis
    using h grouping_order_independent [OF h] by blast
qed

section \<open>Facts about the historical loop and the row builders\<close>

lemma historical_loop_rows:
  "historical_loop ge city build years full = Inr res \<Longrightarrow>
     \<exists>rows. list_all2 (year_built ge city build) years rows
       \<and> frows res = frows full @ filter (\<lambda>r. r \<noteq> []) rows
       \<and> set (fcolumns res) = set (fcolumns full) \<union> (\<Union>r \<in> set rows. fst ` set r)"
proof (induction years arbitrary: full)
  case Nil
  then show ?case by simp
next
  case (Cons y ys)
  from Cons.prems obtain df row where
    f: "ge city y = Inr df" and b: "build (only_paid df) = Inr row"
    and l: "historical_loop ge city build ys (append_frame full row) = Inr res"
    by (auto split: sum.splits)
  from Cons.IH [OF l] obtain rows where
    r: "list_all2 (year_built ge city build) ys rows"
    "frows res = frows (append_frame full row) @ filter (\<lambda>r. r \<noteq> []) rows"
    "set (fcolumns res) = set (fcolumns (append_frame full row)) \<union> (\<Union>r \<in> set rows. fst ` set r)"
    by blast
  have "list_all2 (year_built ge city build) (y # ys) (row # rows)"
    using r(1) f b by (simp add: year_built_def)
  moreover have "frows res = frows full @ filter (\<lambda>r. r \<noteq> []) (row # rows)"
    using r(2) by (simp add: append_frame_def)
  moreover have "set (fcolumns res) = set (fcolumns full) \<union> (\<Union>r \<in> set (row # rows). fst ` set r)"
    using r(3) by (auto simp: append_frame_def)
  ultimately show ?case by blast
qed

lemma historical_loop_fails:
  "historical_loop ge city build years full = Inl e \<Longrightarrow>
     \<exists>y \<in> set years. ge city y = Inl e
        \<or> (\<exists>df. ge city y = Inr df \<and> build (only_paid df) = Inl e)"
  by (induction years arbitrary: full) (auto split: sum.splits)

lemma historical_loop_total:
  "\<forall>y \<in> set years. \<exists>df row. ge city y = Inr df \<and> build (only_paid df) = Inr row \<Longrightarrow>
     \<exists>res. historical_loop ge city build years full = Inr res"
  by (induction years arbitrary: full) (auto split: sum.splits)

lemma historical_loop_aborts:
  "y \<in> set years \<Longrightarrow> ge city y = Inr df \<Longrightarrow> build (only_paid df) = Inl e' \<Longrightarrow>
     \<exists>e. historical_loop ge city build years full = Inl e"
  by (induction years arbitrary: full) (auto split: sum.splits)

lemma filter_all_length: "length (filter P xs) = length xs \<Longrightarrow> filter P xs = xs"
proof (induction xs)
  case Nil
  then show ?case by simp
next
  case (Cons x xs)
  show ?case
  proof (cases "P x")
    case True
    with Cons show ?thesis by simp
  next
    case False
    with Cons.prems have "length (filter P xs) = Suc (length xs)" by simp
    moreover have "length (filter P xs) \<le> length xs" by simp
    ultimately show ?thesis by linarith
  qed
qed

lemma historical_result:
  assumes "historical ge city years build = Inr res"
  shows "findex res = years"
    and "list_all2 (year_built ge city build) years (frows res)"
    and "set (fcolumns res) = (\<Union>r \<in> set (frows res). fst ` set r)"
proof -
  from assms obtain full where
    l: "historical_loop ge city build years empty_frame = Inr full"
    and s: "set_index full years = Inr res"
    by (auto simp: historical_def split: sum.splits)
  from historical_loop_rows [OF l] obtain rows where
    r: "list_all2 (year_built ge city build) years rows"
    "frows full = filter (\<lambda>r. r \<noteq> []) rows"
    "set (fcolumns full) = (\<Union>r \<in> set rows. fst ` set r)"
    by (auto simp: empty_frame_def)
  have n: "length rows = length years"
    using r(1) by (simp add: list_all2_lengthD)
  have "findex res = years \<and> frows res = rows \<and> set (fcolumns res) = set (fcolumns full)"
  proof (cases "fcolumns full = []")
    case True
    with r(3) have "\<forall>row \<in> set rows. row = []"
      by auto
    then have "replicate (length rows) [] = rows"
      by (rule replicate_length_same)
    with s True n show ?thesis
      by (auto simp: set_index_def)
  next
    case False
    with s have len: "length years = length (frows full)" and res: "res = full\<lparr>findex := years\<rparr>"
      by (auto simp: set_index_def split: if_splits)
    from len r(2) n have "length (filter (\<lambda>r. r \<noteq> []) rows) = length rows"
      by simp
    then have "filter (\<lambda>r. r \<noteq> []) rows = rows"
      by (rule filter_all_length)
    with res r(2) show ?thesis
      by simp
  qed
  with r show "findex res = years"
    and "list_all2 (year_built ge city build) years (frows res)"
    and "set (fcolumns res) = (\<Union>r \<in> set (frows res). fst ` set r)"
    by simp_all
qed

lemma loc_Inl: "loc tbl k = Inl e \<longleftrightarrow> e = KeyError k \<and> k \<notin> fst ` set tbl"
  unfolding loc_def by (force simp: map_of_eq_None_iff split: option.splits dest: map_of_SomeD)

lemma loc_present: "k \<in> fst ` set tbl \<Longrightarrow> \<exists>v. loc tbl k = Inr v"
  unfolding loc_def by (cases "map_of tbl k") (auto simp: map_of_eq_None_iff)

lemma loc_group_by_theme:
  "loc (group_by_theme df) theme =
     (if theme \<in> ds_funcao_governo ` set df
      then Inr (sum_list (map vl_despesa (filter (\<lambda>r. ds_funcao_governo r = theme) df)),
                unique (map ds_subfuncao_governo (filter (\<lambda>r. ds_funcao_governo r = theme) df)))
      else Inl (KeyError theme))"
  unfolding group_by_theme_def by (simp add: loc_groupby)

lemma group_by_subtheme_table:
  "group_by_subtheme df theme =
    (if theme \<in> ds_funcao_governo ` set df
     then Inr (map (\<lambda>s. (s, sum_list (map vl_despesa
                 (filter (\<lambda>r. ds_funcao_governo r = theme \<and> ds_subfuncao_governo r = s) df))))
             (sort (get_all_subthemes_of df theme)))
     else Inl (KeyError theme))"
proof -
  let ?ks = "filter (\<lambda>k. fst k = theme)
       (sort (unique (map (\<lambda>r. (ds_funcao_governo r, ds_subfuncao_governo r)) df)))"
  have "map (\<lambda>k. (snd k, sum_list (map vl_despesa
                 (filter (\<lambda>r. (ds_funcao_governo r, ds_subfuncao_governo r) = k) df)))) ?ks
      = map ((\<lambda>s. (s, sum_list (map vl_despesa
                 (filter (\<lambda>r. ds_funcao_governo r = theme \<and> ds_subfuncao_governo r = s) df)))) \<circ> snd) ?ks"
    by (rule map_cong) auto
  then show ?thesis
    by (simp add: group_by_subtheme_eq sort_subthemes_of)
qed

lemma group_by_subtheme_keys:
  "group_by_subtheme df theme = Inr tbl \<Longrightarrow>
     fst ` set tbl = ds_subfuncao_governo ` {r \<in> set df. ds_funcao_governo r = theme}"
  by (auto simp: group_by_subtheme_table get_all_subthemes_of_eq image_iff comp_def split: if_splits)

lemma set_get_all_subthemes_of:
  "set (get_all_subthemes_of df theme) = ds_subfuncao_governo ` {r \<in> set df. ds_funcao_governo r = theme}"
  by (auto simp: get_all_subthemes_of_eq)

lemma themed_row_fails:
  "themed_row paid themes acc = Inl e \<Longrightarrow>
     \<exists>theme \<in> set themes. e = KeyError theme \<and> theme \<notin> ds_funcao_governo ` set paid"
  by (induction themes arbitrary: acc) (auto simp: loc_group_by_theme split: sum.splits if_splits)

lemma themed_row_absent:
  "theme \<in> set themes \<Longrightarrow> theme \<notin> ds_funcao_governo ` set paid \<Longrightarrow>
     \<exists>e. themed_row paid themes acc = Inl e"
  by (induction themes arbitrary: acc) (auto simp: loc_group_by_theme split: sum.splits if_splits)

lemma themed_row_ok:
  "set themes \<subseteq> ds_funcao_governo ` set paid \<Longrightarrow>
     themed_row paid themes acc =
       Inr (fold (\<lambda>theme. AList.update (theme_column theme)
              (sum_list (map vl_despesa (filter (\<lambda>r. ds_funcao_governo r = theme) paid))))
            themes acc)"
  by (induction themes arbitrary: acc) (auto simp: loc_group_by_theme)

lemma fold_update_other:
  "c \<notin> col ` set ks \<Longrightarrow> map_of (fold (\<lambda>k. AList.update (col k) (val k)) ks acc) c = map_of acc c"
  by (induction ks arbitrary: acc) (auto simp: AList.update_conv')

lemma fold_update_cell:
  "inj col \<Longrightarrow> k \<in> set ks \<Longrightarrow>
     map_of (fold (\<lambda>k. AList.update (col k) (val k)) ks acc) (col k) = Some (val k)"
proof (induction ks arbitrary: acc)
  case Nil
  then show ?case by simp
next
  case (Cons a ks)
  show ?case
  proof (cases "k \<in> set ks")
    case True
    with Cons show ?thesis by simp
  next
    case False
    with Cons.prems have "k = a" by simp
    moreover have "col k \<notin> col ` set ks"
      using False Cons.prems(1) by (auto dest: injD)
    ultimately show ?thesis
      by (simp add: fold_update_other AList.update_conv')
  qed
qed

lemma fold_update_keys:
  "fst ` set (fold (\<lambda>k. AList.update (col k) (val k)) ks acc) = fst ` set acc \<union> col ` set ks"
  by (induction ks arbitrary: acc) (auto simp: AList.dom_update)

lemma inj_theme_column: "inj theme_column"
  by (rule injI) (simp add: theme_column_def)

lemma subthemed_row_fails:
  "subthemed_row paid subthemes acc = Inl e \<Longrightarrow>
     \<exists>(theme, subtheme) \<in> set subthemes.
        (e = KeyError theme \<and> theme \<notin> ds_funcao_governo ` set paid)
      \<or> (e = KeyError subtheme
           \<and> (theme, subtheme) \<notin> (\<lambda>r. (ds_funcao_governo r, ds_subfuncao_governo r)) ` set paid)"
proof (induction paid subthemes acc rule: subthemed_row.induct)
  case (1 paid acc)
  then show ?case by simp
next
  case (2 paid theme subtheme subthemes acc)
  show ?case
  proof (cases "group_by_subtheme paid theme")
    case (Inl e')
    with "2.prems" have "e = KeyError theme \<and> theme \<notin> ds_funcao_governo ` set paid"
      by (auto simp: group_by_subtheme_table split: if_splits)
    then show ?thesis by auto
  next
    case (Inr tbl)
    note tbl = this
    show ?thesis
    proof (cases "loc tbl subtheme")
      case (Inl e')
      with "2.prems" tbl have "e = KeyError subtheme" "subtheme \<notin> fst ` set tbl"
        by (auto simp: loc_Inl)
      with group_by_subtheme_keys [OF tbl]
      have "e = KeyError subtheme
           \<and> (theme, subtheme) \<notin> (\<lambda>r. (ds_funcao_governo r, ds_subfuncao_governo r)) ` set paid"
        by auto
      then show ?thesis by auto
    next
      case (Inr v)
      with "2.prems" tbl "2.IH" [OF tbl Inr] show ?thesis by auto
    qed
  qed
qed

lemma subthemed_row_absent:
  "(theme, subtheme) \<in> set subthemes \<Longrightarrow>
   (theme, subtheme) \<notin> (\<lambda>r. (ds_funcao_governo r, ds_subfuncao_governo r)) ` set paid \<Longrightarrow>
     \<exists>e. subthemed_row paid subthemes acc = Inl e"
proof (induction paid subthemes acc rule: subthemed_row.induct)
  case (1 paid acc)
  then show ?case by simp
next
  case (2 paid t s subthemes acc)
  show ?case
  proof (cases "group_by_subtheme paid t")
    case (Inl e')
    then show ?thesis by simp
  next
    case (Inr tbl)
    note tbl = this
    show ?thesis
    proof (cases "loc tbl s")
      case (Inl e')
      with tbl show ?thesis by simp
    next
      case (Inr v)
      then have "s \<in> fst ` set tbl"
        by (force simp: loc_def split: option.splits dest: map_of_SomeD)
      with group_by_subtheme_keys [OF tbl] have "(t, s) \<in> (\<lambda>r. (ds_funcao_governo r, ds_subfuncao_governo r)) ` set paid"
        by auto
      with "2.prems" have "(theme, subtheme) \<in> set subthemes" by auto
      with "2.IH" [OF tbl Inr] "2.prems" tbl Inr show ?thesis by simp
    qed
  qed
qed

lemma subtheme_cells_ok:
  "set subthemes \<subseteq> fst ` set tbl \<Longrightarrow>
     \<exists>row. subtheme_cells tbl theme subthemes acc = Inr row
       \<and> fst ` set row = fst ` set acc \<union> subtheme_column theme ` set subthemes"
proof (induction subthemes arbitrary: acc)
  case Nil
  then show ?case by simp
next
  case (Cons s subthemes)
  then obtain v where v: "loc tbl s = Inr v"
    using loc_present [of s tbl] by auto
  from Cons.IH [of "AList.update (subtheme_column theme s) v acc"] Cons.prems
  show ?case
    by (auto simp: v AList.dom_update)
qed

lemma all_subthemes_row_fails:
  "all_subthemes_row paid themes acc = Inl e \<Longrightarrow>
     \<exists>theme \<in> set themes. e = KeyError theme \<and> theme \<notin> ds_funcao_governo ` set paid"
proof (induction themes arbitrary: acc)
  case Nil
  then show ?case by simp
next
  case (Cons theme themes)
  show ?case
  proof (cases "group_by_subtheme paid theme")
    case (Inl e')
    with Cons.prems have "e = KeyError theme \<and> theme \<notin> ds_funcao_governo ` set paid"
      by (auto simp: group_by_subtheme_table split: if_splits)
    then show ?thesis by simp
  next
    case (Inr tbl)
    have "set (get_all_subthemes_of paid theme) \<subseteq> fst ` set tbl"
      using group_by_subtheme_keys [OF Inr] by (simp add: set_get_all_subthemes_of)
    from subtheme_cells_ok [OF this] obtain row where
      "subtheme_cells tbl theme (get_all_subthemes_of paid theme) acc = Inr row"
      by blast
    with Cons.prems Inr have "all_subthemes_row paid themes row = Inl e"
      by simp
    from Cons.IH [OF this] show ?thesis by auto
  qed
qed

lemma all_subthemes_row_absent:
  "theme \<in> set themes \<Longrightarrow> theme \<notin> ds_funcao_governo ` set paid \<Longrightarrow>
     \<exists>e. all_subthemes_row paid themes acc = Inl e"
  by (induction themes arbitrary: acc)
     (auto simp: group_by_subtheme_table Let_def split: sum.splits if_splits)

lemma all_subthemes_row_keys:
  "all_subthemes_row paid themes acc = Inr row \<Longrightarrow>
     fst ` set row = fst ` set acc
        \<union> {subtheme_column theme s | theme s.
             theme \<in> set themes \<and> s \<in> set (get_all_subthemes_of paid theme)}"
proof (induction themes arbitrary: acc)
  case Nil
  then show ?case by simp
next
  case (Cons theme themes)
  from Cons.prems obtain tbl row' where
    tbl: "group_by_subtheme paid theme = Inr tbl"
    and c: "subtheme_cells tbl theme (get_all_subthemes_of paid theme) acc = Inr row'"
    and r: "all_subthemes_row paid themes row' = Inr row"
    by (auto simp: Let_def split: sum.splits)
  have "set (get_all_subthemes_of paid theme) \<subseteq> fst ` set tbl"
    using group_by_subtheme_keys [OF tbl] by (simp add: set_get_all_subthemes_of)
  from subtheme_cells_ok [OF this, of theme acc] c
  have k: "fst ` set row' = fst ` set acc \<union> subtheme_column theme ` set (get_all_subthemes_of paid theme)"
    by simp
  show ?case
    unfolding Cons.IH [OF r] k by auto
qed

lemmas historical_defs =
  get_themed_historical_def get_subthemed_historical_def get_all_subthemes_historical_def
  historical_def set_index_def append_frame_def empty_frame_def example_expenses_def
  only_paid_filter group_by_theme_def group_by_theme_and_subtheme_def groupby_agg_def
  group_by_subtheme_def loc_level0_def loc_def theme_column_def subtheme_column_def
  get_all_subthemes_of_eq

lemma historical_aborts_with:
  assumes "y \<in> set years" "ge city y = Inr df" "build (only_paid df) = Inl e'"
  shows "\<exists>e. historical ge city years build = Inl e
     \<and> (\<exists>y \<in> set years. ge city y = Inl e
           \<or> (\<exists>d. ge city y = Inr d \<and> build (only_paid d) = Inl e))"
proof -
  from historical_loop_aborts [of y years ge city df build e' empty_frame] assms
  obtain e where e: "historical_loop ge city build years empty_frame = Inl e"
    by blast
  from historical_loop_fails [OF e] e show ?thesis
    by (auto simp: historical_def)
qed

lemma historical_row:
  assumes "historical ge city years build = Inr res" and "i < length years"
    and "ge city (years ! i) = Inr df"
  shows "build (only_paid df) = Inr (frows res ! i)"
    and "length (frows res) = length years"
proof -
  from historical_result(2) [OF assms(1)]
  have l: "length years = length (frows res)"
    and "\<forall>j<length years. year_built ge city build (years ! j) (frows res ! j)"
    by (auto simp: list_all2_conv_all_nth)
  with assms(2) have "year_built ge city build (years ! i) (frows res ! i)"
    by auto
  with assms(3) show "build (only_paid df) = Inr (frows res ! i)"
    by (auto simp: year_built_def)
  from l show "length (frows res) = length years" by simp
qed

lemma themed_row_Inr:
  assumes "themed_row paid themes acc = Inr row"
  shows "set themes \<subseteq> ds_funcao_governo ` set paid"
    and "row = fold (\<lambda>theme. AList.update (theme_column theme)
              (sum_list (map vl_despesa (filter (\<lambda>r. ds_funcao_governo r = theme) paid))))
            themes acc"
proof -
  show sub: "set themes \<subseteq> ds_funcao_governo ` set paid"
  proof (rule ccontr)
    assume "\<not> set themes \<subseteq> ds_funcao_governo ` set paid"
    then obtain theme where "theme \<in> set themes" "theme \<notin> ds_funcao_governo ` set paid"
      by blast
    from themed_row_absent [OF this, of acc] assms show False by simp
  qed
  from themed_row_ok [OF sub, of acc] assms
  show "row = fold (\<lambda>theme. AList.update (theme_column theme)
              (sum_list (map vl_despesa (filter (\<lambda>r. ds_funcao_governo r = theme) paid))))
            themes acc"
    by simp
qed

lemma themed_row_keys:
  assumes "themed_row paid themes [] = Inr row"
  shows "fst ` set row = theme_column ` set themes"
  unfolding themed_row_Inr(2) [OF assms]
  using fold_update_keys [where col = theme_column and ks = themes and acc = "[]"
      and val = "\<lambda>theme. sum_list (map vl_despesa (filter (\<lambda>r. ds_funcao_governo r = theme) paid))"]
  by simp

lemma fold_update_distinct:
  "distinct (map fst acc) \<Longrightarrow>
     distinct (map fst (fold (\<lambda>k. AList.update (col k) (val k)) ks acc))"
  by (induction ks arbitrary: acc) (simp_all add: AList.distinct_update)

lemma themed_row_distinct:
  assumes "themed_row paid themes [] = Inr row"
  shows "distinct (map fst row)"
  unfolding themed_row_Inr(2) [OF assms]
  using fold_update_distinct [where col = theme_column and ks = themes and acc = "[]"
      and val = "\<lambda>theme. sum_list (map vl_despesa (filter (\<lambda>r. ds_funcao_governo r = theme) paid))"]
  by simp

lemma historical_loop_distinct:
  assumes "\<forall>paid row. build paid = Inr row \<longrightarrow> distinct (map fst row)"
  shows "historical_loop ge city build years full = Inr res \<Longrightarrow> distinct (fcolumns full) \<Longrightarrow>
     distinct (fcolumns res)"
proof (induction years arbitrary: full)
  case Nil
  then show ?case by simp
next
  case (Cons y ys)
  from Cons.prems(1) obtain df row where
    b: "build (only_paid df) = Inr row"
    and l: "historical_loop ge city build ys (append_frame full row) = Inr res"
    by (auto split: sum.splits)
  have "distinct (fcolumns (append_frame full row))"
    using assms b Cons.prems(2) by (auto simp: append_frame_def distinct_map_filter)
  from Cons.IH [OF l this] show ?case .
qed

lemma historical_distinct:
  assumes "\<forall>paid row. build paid = Inr row \<longrightarrow> distinct (map fst row)"
    and "historical ge city years build = Inr res"
  shows "distinct (fcolumns res)"
proof -
  from assms(2) obtain full where
    l: "historical_loop ge city build years empty_frame = Inr full"
    and s: "set_index full years = Inr res"
    by (auto simp: historical_def split: sum.splits)
  have "distinct (fcolumns empty_frame)"
    by (simp add: empty_frame_def)
  with historical_loop_distinct [OF assms(1) l]
  have "distinct (fcolumns full)"
    by simp
  with s show ?thesis
    by (auto simp: set_index_def split: if_splits)
qed

lemma historical_total:
  assumes "\<forall>y \<in> set years. \<exists>df row. ge city y = Inr df \<and> build (only_paid df) = Inr row"
    and "(\<forall>paid row. build paid = Inr row \<longrightarrow> row \<noteq> [])
       \<or> (\<forall>paid row. build paid = Inr row \<longrightarrow> row = [])"
  shows "\<exists>res. historical ge city years build = Inr res"
proof -
  from historical_loop_total [where ge = ge and city = city and build = build
      and years = years and full = empty_frame, OF assms(1)] obtain full where
    l: "historical_loop ge city build years empty_frame = Inr full"
    by blast
  from historical_loop_rows [OF l] obtain rows where
    r: "list_all2 (year_built ge city build) years rows"
    "frows full = filter (\<lambda>r. r \<noteq> []) rows"
    "set (fcolumns full) = (\<Union>r \<in> set rows. fst ` set r)"
    by (auto simp: empty_frame_def)
  have built: "\<forall>row \<in> set rows. \<exists>paid. build paid = Inr row"
    using r(1) by (induction years rows rule: list_all2_induct) (auto simp: year_built_def)
  from assms(2) have "fcolumns full = [] \<or> length (frows full) = length years"
  proof
    assume "\<forall>paid row. build paid = Inr row \<longrightarrow> row \<noteq> []"
    with built have "filter (\<lambda>r. r \<noteq> []) rows = rows"
      by (auto simp: filter_id_conv)
    with r show ?thesis
      by (simp add: list_all2_lengthD)
  next
    assume "\<forall>paid row. build paid = Inr row \<longrightarrow> row = []"
    with built have "\<forall>row \<in> set rows. row = []"
      by blast
    with r(3) have "set (fcolumns full) = {}"
      by simp
    then show ?thesis by simp
  qed
  with l show ?thesis
    by (auto simp: historical_def set_index_def)
qed

lemma historical_no_years:
  "historical ge city [] build = Inr \<lparr>findex = [], fcolumns = [], frows = []\<rparr>"
  by (simp add: historical_def set_index_def empty_frame_def)

section \<open>Enumeration of subthemes\<close>

text \<open>
  C6 as stated fails: \<open>get_all_subthemes_of\<close> has no raising path. For a theme that no
  record has, the boolean mask selects nothing and \<open>unique()\<close> returns the empty array.
\<close>

theorem subthemes_of_absent_theme_is_empty:
  "''Educacao'' \<notin> ds_funcao_governo ` set table_2019
   \<and> get_all_subthemes_of table_2019 ''Educacao'' = []"
  by (simp add: get_all_subthemes_of_eq example_defs)

text \<open>
  C6, amended: \<open>get_all_subthemes_of df theme\<close> always returns; the result lists, without
  repetition, the subthemes of the records of the table that have the theme, and it is
  empty when no record has the theme.
\<close>

theorem get_all_subthemes_of_distinct_values:
  "distinct (get_all_subthemes_of df theme)
   \<and> set (get_all_subthemes_of df theme)
       = ds_subfuncao_governo ` {r \<in> set df. ds_funcao_governo r = theme}
   \<and> (theme \<notin> ds_funcao_governo ` set df \<longrightarrow> get_all_subthemes_of df theme = [])"
proof -
  have "theme \<notin> ds_funcao_governo ` set df \<Longrightarrow> filter (\<lambda>r. ds_funcao_governo r = theme) df = []"
    by (auto simp: filter_empty_conv)
  then show ?thesis
    by (auto simp: get_all_subthemes_of_eq)
qed

theorem get_all_subthemes_of_distinct_values_witness:
  "''Educacao'' \<notin> ds_funcao_governo ` set table_2021
   \<and> get_all_subthemes_of table_2021 ''Educacao'' = []"
proof -
  have h: "''Educacao'' \<notin> ds_funcao_governo ` set table_2021"
    by (simp add: example_defs)
  with get_all_subthemes_of_distinct_values [of table_2021 "''Educacao''"] show ?thesis
    by blast
qed

section \<open>Historical series\<close>

text \<open>
  C3 as stated fails: the exception of a missing selection is the \<open>KeyError\<close> of the
  failed \<open>.loc\<close>, whose only content is the missing label. Two calls for different cities,
  failing at different years, raise the same exception.
\<close>

theorem missing_theme_error_names_only_the_label:
  "get_themed_historical example_expenses ''sao-paulo'' [2019] [''Educacao'']
       = Inl (KeyError ''Educacao'')
   \<and> get_themed_historical example_expenses ''campinas'' [2020, 2021] [''Educacao'']
       = Inl (KeyError ''Educacao'')"
  by (simp add: historical_defs example_defs)

text \<open>
  C3, amended: in each of the three historical functions, if the fetch of some requested
  year succeeds and a requested selection (a theme; a theme and subtheme pair) is absent
  from that year's paid-filtered table, the call raises and returns no table. When every
  fetch of the call succeeds, the exception is a \<open>KeyError\<close> carrying one label only, and
  that label is missing from the paid-filtered table of a requested year: it is a
  requested theme that no paid record of that year has, or the subtheme of a requested
  pair that no paid record of that year has.
\<close>

theorem missing_selection_aborts:
  assumes "year \<in> set years" and "get_expenses city year = Inr df"
  shows
   "(theme \<in> set themes \<and> theme \<notin> ds_funcao_governo ` set (only_paid df) \<longrightarrow>
       (\<exists>e. get_themed_historical get_expenses city years themes = Inl e
          \<and> ((\<forall>y \<in> set years. \<exists>d. get_expenses city y = Inr d) \<longrightarrow>
                (\<exists>k \<in> set themes. e = KeyError k
                   \<and> (\<exists>y \<in> set years. \<exists>d. get_expenses city y = Inr d
                          \<and> k \<notin> ds_funcao_governo ` set (only_paid d))))))
  \<and> ((theme, subtheme) \<in> set subthemes
       \<and> (theme, subtheme) \<notin>
            (\<lambda>r. (ds_funcao_governo r, ds_subfuncao_governo r)) ` set (only_paid df) \<longrightarrow>
       (\<exists>e. get_subthemed_historical get_expenses city years subthemes = Inl e
          \<and> ((\<forall>y \<in> set years. \<exists>d. get_expenses city y = Inr d) \<longrightarrow>
                (\<exists>(t, s) \<in> set subthemes. \<exists>y \<in> set years. \<exists>d.
                     get_expenses city y = Inr d
                   \<and> ((e = KeyError t \<and> t \<notin> ds_funcao_governo ` set (only_paid d))
                      \<or> (e = KeyError s
                          \<and> (t, s) \<notin> (\<lambda>r. (ds_funcao_governo r, ds_subfuncao_governo r))
                                        ` set (only_paid d)))))))
  \<and> (theme \<in> set themes \<and> theme \<notin> ds_funcao_governo ` set (only_paid df) \<longrightarrow>
       (\<exists>e. get_all_subthemes_historical get_expenses city years themes = Inl e
          \<and> ((\<forall>y \<in> set years. \<exists>d. get_expenses city y = Inr d) \<longrightarrow>
                (\<exists>k \<in> set themes. e = KeyError k
                   \<and> (\<exists>y \<in> set years. \<exists>d. get_expenses city y = Inr d
                          \<and> k \<notin> ds_funcao_governo ` set (only_paid d))))))"
proof (intro conjI impI)
  assume a: "theme \<in> set themes \<and> theme \<notin> ds_funcao_governo ` set (only_paid df)"
  let ?build = "\<lambda>paid_df. themed_row paid_df themes []"
  from a obtain e' where "?build (only_paid df) = Inl e'"
    using themed_row_absent by blast
  from historical_aborts_with [where ge = get_expenses and city = city and y = year
      and years = years and df = df and build = ?build, OF assms this]
  obtain e where e: "historical get_expenses city years ?build = Inl e"
    and c: "\<exists>y \<in> set years. get_expenses city y = Inl e
           \<or> (\<exists>d. get_expenses city y = Inr d \<and> ?build (only_paid d) = Inl e)"
    by blast
  have "\<exists>k \<in> set themes. e = KeyError k
          \<and> (\<exists>y \<in> set years. \<exists>d. get_expenses city y = Inr d
                 \<and> k \<notin> ds_funcao_governo ` set (only_paid d))"
    if f: "\<forall>y \<in> set years. \<exists>d. get_expenses city y = Inr d"
  proof -
    from c f obtain y d where y: "y \<in> set years" "get_expenses city y = Inr d"
      "?build (only_paid d) = Inl e"
      by force
    from themed_row_fails [OF y(3)] y(1,2) show ?thesis
      by blast
  qed
  with e show "\<exists>e. get_themed_historical get_expenses city years themes = Inl e
          \<and> ((\<forall>y \<in> set years. \<exists>d. get_expenses city y = Inr d) \<longrightarrow>
                (\<exists>k \<in> set themes. e = KeyError k
                   \<and> (\<exists>y \<in> set years. \<exists>d. get_expenses city y = Inr d
                          \<and> k \<notin> ds_funcao_governo ` set (only_paid d))))"
    unfolding get_themed_historical_def by blast
next
  assume a: "(theme, subtheme) \<in> set subthemes
       \<and> (theme, subtheme) \<notin>
            (\<lambda>r. (ds_funcao_governo r, ds_subfuncao_governo r)) ` set (only_paid df)"
  let ?build = "\<lambda>paid_df. subthemed_row paid_df subthemes []"
  from a obtain e' where "?build (only_paid df) = Inl e'"
    using subthemed_row_absent by blast
  from historical_aborts_with [where ge = get_expenses and city = city and y = year
      and years = years and df = df and build = ?build, OF assms this]
  obtain e where e: "historical get_expenses city years ?build = Inl e"
    and c: "\<exists>y \<in> set years. get_expenses city y = Inl e
           \<or> (\<exists>d. get_expenses city y = Inr d \<and> ?build (only_paid d) = Inl e)"
    by blast
  have "\<exists>(t, s) \<in> set subthemes. \<exists>y \<in> set years. \<exists>d.
             get_expenses city y = Inr d
           \<and> ((e = KeyError t \<and> t \<notin> ds_funcao_governo ` set (only_paid d))
              \<or> (e = KeyError s
                  \<and> (t, s) \<notin> (\<lambda>r. (ds_funcao_governo r, ds_subfuncao_governo r))
                                ` set (only_paid d)))"
    if f: "\<forall>y \<in> set years. \<exists>d. get_expenses city y = Inr d"
  proof -
    from c f obtain y d where y: "y \<in> set years" "get_expenses city y = Inr d"
      "?build (only_paid d) = Inl e"
      by force
    from subthemed_row_fails [OF y(3)] obtain t s where
      "(t, s) \<in> set subthemes"
      "(e = KeyError t \<and> t \<notin> ds_funcao_governo ` set (only_paid d))
         \<or> (e = KeyError s
             \<and> (t, s) \<notin> (\<lambda>r. (ds_funcao_governo r, ds_subfuncao_governo r))
                           ` set (only_paid d))"
      by blast
    with y(1,2) show ?thesis
      by blast
  qed
  with e show "\<exists>e. get_subthemed_historical get_expenses city years subthemes = Inl e
          \<and> ((\<forall>y \<in> set years. \<exists>d. get_expenses city y = Inr d) \<longrightarrow>
                (\<exists>(t, s) \<in> set subthemes. \<exists>y \<in> set years. \<exists>d.
                     get_expenses city y = Inr d
                   \<and> ((e = KeyError t \<and> t \<notin> ds_funcao_governo ` set (only_paid d))
                      \<or> (e = KeyError s
                          \<and> (t, s) \<notin> (\<lambda>r. (ds_funcao_governo r, ds_subfuncao_governo r))
                                        ` set (only_paid d)))))"
    unfolding get_subthemed_historical_def by blast
next
  assume a: "theme \<in> set themes \<and> theme \<notin> ds_funcao_governo ` set (only_paid df)"
  let ?build = "\<lambda>paid_df. all_subthemes_row paid_df themes []"
  from a obtain e' where "?build (only_paid df) = Inl e'"
    using all_subthemes_row_absent by blast
  from historical_aborts_with [where ge = get_expenses and city = city and y = year
      and years = years and df = df and build = ?build, OF assms this]
  obtain e where e: "historical get_expenses city years ?build = Inl e"
    and c: "\<exists>y \<in> set years. get_expenses city y = Inl e
           \<or> (\<exists>d. get_expenses city y = Inr d \<and> ?build (only_paid d) = Inl e)"
    by blast
  have "\<exists>k \<in> set themes. e = KeyError k
          \<and> (\<exists>y \<in> set years. \<exists>d. get_expenses city y = Inr d
                 \<and> k \<notin> ds_funcao_governo ` set (only_paid d))"
    if f: "\<forall>y \<in> set years. \<exists>d. get_expenses city y = Inr d"
  proof -
    from c f obtain y d where y: "y \<in> set years" "get_expenses city y = Inr d"
      "?build (only_paid d) = Inl e"
      by force
    from all_subthemes_row_fails [OF y(3)] y(1,2) show ?thesis
      by blast
  qed
  with e show "\<exists>e. get_all_subthemes_historical get_expenses city years themes = Inl e
          \<and> ((\<forall>y \<in> set years. \<exists>d. get_expenses city y = Inr d) \<longrightarrow>
                (\<exists>k \<in> set themes. e = KeyError k
                   \<and> (\<exists>y \<in> set years. \<exists>d. get_expenses city y = Inr d
                          \<and> k \<notin> ds_funcao_governo ` set (only_paid d))))"
    unfolding get_all_subthemes_historical_def by blast
qed

theorem missing_selection_aborts_witness:
  "(2021::int) \<in> set [2020, 2021]
   \<and> example_expenses ''campinas'' 2021 = Inr table_2021
   \<and> example_expenses ''campinas'' 2020 = Inr table_2020
   \<and> ''Educacao'' \<in> set [''Educacao'']
   \<and> ''Educacao'' \<notin> ds_funcao_governo ` set (only_paid table_2021)
   \<and> (''Educacao'', ''Ensino'') \<in> set [(''Educacao'', ''Ensino'')]
   \<and> (''Educacao'', ''Ensino'') \<notin>
        (\<lambda>r. (ds_funcao_governo r, ds_subfuncao_governo r)) ` set (only_paid table_2021)
   \<and> (\<exists>k \<in> set [''Educacao''].
         get_themed_historical example_expenses ''campinas'' [2020, 2021] [''Educacao'']
           = Inl (KeyError k)
       \<and> (\<exists>y \<in> set [2020, 2021]. \<exists>d. example_expenses ''campinas'' y = Inr d
              \<and> k \<notin> ds_funcao_governo ` set (only_paid d)))
   \<and> (\<exists>e. get_subthemed_historical example_expenses ''campinas'' [2020, 2021]
             [(''Educacao'', ''Ensino'')] = Inl e
       \<and> (\<exists>(t, s) \<in> set [(''Educacao'', ''Ensino'')]. \<exists>y \<in> set [2020, 2021]. \<exists>d.
               example_expenses ''campinas'' y = Inr d
             \<and> ((e = KeyError t \<and> t \<notin> ds_funcao_governo ` set (only_paid d))
                \<or> (e = KeyError s
                    \<and> (t, s) \<notin> (\<lambda>r. (ds_funcao_governo r, ds_subfuncao_governo r))
                                  ` set (only_paid d)))))
   \<and> (\<exists>k \<in> set [''Educacao''].
         get_all_subthemes_historical example_expenses ''campinas'' [2020, 2021] [''Educacao'']
           = Inl (KeyError k)
       \<and> (\<exists>y \<in> set [2020, 2021]. \<exists>d. example_expenses ''campinas'' y = Inr d
              \<and> k \<notin> ds_funcao_governo ` set (only_paid d)))"
proof -
  have h1: "(2021::int) \<in> set [2020, 2021]" by simp
  have h2: "example_expenses ''campinas'' 2021 = Inr table_2021"
    by (simp add: example_expenses_def)
  have h3: "''Educacao'' \<in> set [''Educacao'']" by simp
  have h4: "''Educacao'' \<notin> ds_funcao_governo ` set (only_paid table_2021)"
    by (simp add: only_paid_filter example_defs)
  have h5: "(''Educacao'', ''Ensino'') \<in> set [(''Educacao'', ''Ensino'')]" by simp
  have h6: "(''Educacao'', ''Ensino'') \<notin>
        (\<lambda>r. (ds_funcao_governo r, ds_subfuncao_governo r)) ` set (only_paid table_2021)"
    by (simp add: only_paid_filter example_defs)
  have h7: "\<forall>y \<in> set [2020, 2021]. \<exists>d. example_expenses ''campinas'' y = Inr d"
    by (simp add: example_expenses_def)
  have h8: "example_expenses ''campinas'' 2020 = Inr table_2020"
    by (simp add: example_expenses_def)
  note t = missing_selection_aborts [where year = 2021 and years = "[2020, 2021]"
      and get_expenses = example_expenses and city = "''campinas''" and df = table_2021
      and theme = "''Educacao''" and themes = "[''Educacao'']" and subtheme = "''Ensino''"
      and subthemes = "[(''Educacao'', ''Ensino'')]", OF h1 h2]
  from t h3 h4 h7 have a: "\<exists>k \<in> set [''Educacao''].
         get_themed_historical example_expenses ''campinas'' [2020, 2021] [''Educacao'']
           = Inl (KeyError k)
       \<and> (\<exists>y \<in> set [2020, 2021]. \<exists>d. example_expenses ''campinas'' y = Inr d
              \<and> k \<notin> ds_funcao_governo ` set (only_paid d))"
    by blast
  from t h5 h6 h7 have b: "\<exists>e. get_subthemed_historical example_expenses ''campinas'' [2020, 2021]
             [(''Educacao'', ''Ensino'')] = Inl e
       \<and> (\<exists>(t, s) \<in> set [(''Educacao'', ''Ensino'')]. \<exists>y \<in> set [2020, 2021]. \<exists>d.
               example_expenses ''campinas'' y = Inr d
             \<and> ((e = KeyError t \<and> t \<notin> ds_funcao_governo ` set (only_paid d))
                \<or> (e = KeyError s
                    \<and> (t, s) \<notin> (\<lambda>r. (ds_funcao_governo r, ds_subfuncao_governo r))
                                  ` set (only_paid d))))"
    by blast
  from t h3 h4 h7 have c: "\<exists>k \<in> set [''Educacao''].
         get_all_subthemes_historical example_expenses ''campinas'' [2020, 2021] [''Educacao'']
           = Inl (KeyError k)
       \<and> (\<exists>y \<in> set [2020, 2021]. \<exists>d. example_expenses ''campinas'' y = Inr d
              \<and> k \<notin> ds_funcao_governo ` set (only_paid d))"
    by blast
  from h1 h2 h8 h3 h4 h5 h6 a b c show ?thesis by blast
qed

text \<open>
  C4 as stated fails for an empty list of years: the loop never runs, \<open>full_df\<close> stays the
  empty table, and the result has no column for the requested theme.
\<close>

theorem themed_historical_without_years:
  "get_themed_historical example_expenses ''sao-paulo'' [] [''Saude'']
     = Inr \<lparr>findex = [], fcolumns = [], frows = []\<rparr>"
  by (simp add: historical_defs example_defs)

text \<open>
  C4, amended: for every city, list of years and list of themes for which every per-year
  lookup succeeds (each year is fetched and each requested theme occurs in its
  paid-filtered table), \<open>get_themed_historical\<close> returns a table; its index is the list of
  years as given, with one row per element of that list, duplicates included; every row
  has exactly the cells of the columns \<open>vl_despesa_\<close> followed by a requested theme, the
  cell being the sum of the paid amounts of the theme in that year. When the list of years
  is not empty, the columns of the table are these, each once; when it is empty, the table
  has no columns.
\<close>

theorem themed_historical_table:
  assumes "\<forall>y \<in> set years. \<exists>df. get_expenses city y = Inr df
           \<and> set themes \<subseteq> ds_funcao_governo ` set (only_paid df)"
  shows "\<exists>res. get_themed_historical get_expenses city years themes = Inr res
     \<and> findex res = years
     \<and> length (frows res) = length years
     \<and> (years = [] \<longrightarrow> fcolumns res = [])
     \<and> (years \<noteq> [] \<longrightarrow>
          distinct (fcolumns res) \<and> set (fcolumns res) = theme_column ` set themes)
     \<and> (\<forall>i < length years. \<forall>df. get_expenses city (years ! i) = Inr df \<longrightarrow>
           fst ` set (frows res ! i) = theme_column ` set themes
         \<and> (\<forall>theme \<in> set themes.
               cell res i (theme_column theme) =
                 Some (sum_list (map vl_despesa
                   (filter (\<lambda>r. ds_funcao_governo r = theme) (only_paid df))))))"
proof -
  let ?build = "\<lambda>paid_df. themed_row paid_df themes []"
  let ?total = "\<lambda>paid theme. sum_list (map vl_despesa (filter (\<lambda>r. ds_funcao_governo r = theme) paid))"
  have "\<forall>y \<in> set years. \<exists>df row. get_expenses city y = Inr df \<and> ?build (only_paid df) = Inr row"
    using assms themed_row_ok by blast
  moreover have "(\<forall>paid row. ?build paid = Inr row \<longrightarrow> row \<noteq> [])
       \<or> (\<forall>paid row. ?build paid = Inr row \<longrightarrow> row = [])"
  proof (cases "themes = []")
    case True
    then show ?thesis by simp
  next
    case False
    then have "\<forall>paid row. ?build paid = Inr row \<longrightarrow> row \<noteq> []"
      using themed_row_keys by fastforce
    then show ?thesis ..
  qed
  ultimately obtain res where res: "historical get_expenses city years ?build = Inr res"
    using historical_total [of years get_expenses city ?build] by blast
  have rows: "fst ` set (frows res ! i) = theme_column ` set themes
      \<and> (\<forall>theme \<in> set themes. cell res i (theme_column theme) = Some (?total (only_paid df) theme))"
    if i: "i < length years" and df: "get_expenses city (years ! i) = Inr df" for i df
  proof -
    have row: "?build (only_paid df) = Inr (frows res ! i)"
      by (rule historical_row(1) [OF res i df])
    show ?thesis
      unfolding cell_def themed_row_keys [OF row]
      unfolding themed_row_Inr(2) [OF row]
      using fold_update_cell [OF inj_theme_column, where ks = themes and acc = "[]"
          and val = "?total (only_paid df)"]
      by simp
  qed
  have len: "length (frows res) = length years"
    using historical_result(2) [OF res] by (simp add: list_all2_lengthD)
  have cols: "set (fcolumns res) = theme_column ` set themes" if "years \<noteq> []"
  proof -
    have "fst ` set row = theme_column ` set themes" if "row \<in> set (frows res)" for row
    proof -
      from that obtain i where i: "i < length years" "row = frows res ! i"
        using len by (metis in_set_conv_nth)
      from assms i(1) obtain df where "get_expenses city (years ! i) = Inr df"
        by (metis nth_mem)
      from rows [OF i(1) this] i(2) show ?thesis by simp
    qed
    moreover have "frows res \<noteq> []"
      using len that by auto
    ultimately show ?thesis
      unfolding historical_result(3) [OF res] by (cases "frows res") auto
  qed
  have "\<forall>paid row. ?build paid = Inr row \<longrightarrow> distinct (map fst row)"
    using themed_row_distinct by blast
  from historical_distinct [OF this res] have dist: "distinct (fcolumns res)" .
  have none: "fcolumns res = []" if "years = []"
    using res that by (auto simp: historical_no_years)
  show ?thesis
    unfolding get_themed_historical_def
  proof (intro exI [of _ res] conjI)
    show "historical get_expenses city years ?build = Inr res"
      by (rule res)
    show "findex res = years"
      by (rule historical_result(1) [OF res])
    show "length (frows res) = length years"
      by (rule len)
    show "years = [] \<longrightarrow> fcolumns res = []"
      using none by simp
    show "years \<noteq> [] \<longrightarrow>
          distinct (fcolumns res) \<and> set (fcolumns res) = theme_column ` set themes"
      using cols dist by simp
    show "\<forall>i < length years. \<forall>df. get_expenses city (years ! i) = Inr df \<longrightarrow>
           fst ` set (frows res ! i) = theme_column ` set themes
         \<and> (\<forall>theme \<in> set themes.
               cell res i (theme_column theme) = Some (?total (only_paid df) theme))"
      by (intro allI impI) (rule rows)
  qed
qed

theorem themed_historical_table_witness:
  "example_expenses ''sao-paulo'' 2019 = Inr table_2019
   \<and> example_expenses ''sao-paulo'' 2020 = Inr table_2020
   \<and> set [''Saude''] \<subseteq> ds_funcao_governo ` set (only_paid table_2019)
   \<and> set [''Saude''] \<subseteq> ds_funcao_governo ` set (only_paid table_2020)
   \<and> (\<exists>res. get_themed_historical example_expenses ''sao-paulo'' [2020, 2019, 2020] [''Saude'']
              = Inr res
          \<and> findex res = [2020, 2019, 2020]
          \<and> length (frows res) = 3
          \<and> fcolumns res = [''vl_despesa_Saude'']
          \<and> cell res 0 ''vl_despesa_Saude'' = Some 100.5
          \<and> cell res 1 ''vl_despesa_Saude'' = Some 150.75
          \<and> cell res 2 ''vl_despesa_Saude'' = Some 100.5)"
proof -
  have h1: "example_expenses ''sao-paulo'' 2019 = Inr table_2019"
    and h2: "example_expenses ''sao-paulo'' 2020 = Inr table_2020"
    by (simp_all add: example_expenses_def)
  have h3: "set [''Saude''] \<subseteq> ds_funcao_governo ` set (only_paid table_2019)"
    and h4: "set [''Saude''] \<subseteq> ds_funcao_governo ` set (only_paid table_2020)"
    by (simp_all add: only_paid_filter example_defs)
  have h: "\<forall>y \<in> set [2020, 2019, 2020]. \<exists>df. example_expenses ''sao-paulo'' y = Inr df
           \<and> set [''Saude''] \<subseteq> ds_funcao_governo ` set (only_paid df)"
    using h1 h2 h3 h4 by simp
  from themed_historical_table [where get_expenses = example_expenses and city = "''sao-paulo''"
      and years = "[2020, 2019, 2020]" and themes = "[''Saude'']", OF h] obtain res where
    r: "get_themed_historical example_expenses ''sao-paulo'' [2020, 2019, 2020] [''Saude''] = Inr res"
      "findex res = [2020, 2019, 2020]" "length (frows res) = length [2020, 2019, 2020 :: int]"
      "distinct (fcolumns res)" "set (fcolumns res) = theme_column ` set [''Saude'']"
    and c: "\<forall>i < length [2020, 2019, 2020 :: int]. \<forall>df.
           example_expenses ''sao-paulo'' ([2020, 2019, 2020] ! i) = Inr df \<longrightarrow>
           (\<forall>theme \<in> set [''Saude''].
               cell res i (theme_column theme) =
                 Some (sum_list (map vl_despesa
                   (filter (\<lambda>r. ds_funcao_governo r = theme) (only_paid df)))))"
    by auto
  have one: "xs = [c]" if "distinct xs" "set xs = {c}" for xs :: "string list" and c
  proof (cases xs)
    case Nil
    with that show ?thesis by simp
  next
    case (Cons a ys)
    with that have "a = c" "set ys \<subseteq> {c}" "c \<notin> set ys"
      by auto
    then have "ys = []"
      by (cases ys) auto
    with Cons \<open>a = c\<close> show ?thesis by simp
  qed
  from r(4,5) have cols: "fcolumns res = [''vl_despesa_Saude'']"
    by (intro one) (simp_all add: theme_column_def)
  from c [rule_format, of 0 table_2020 "''Saude''"] h2
  have c0: "cell res 0 ''vl_despesa_Saude'' = Some 100.5"
    by (simp add: theme_column_def only_paid_filter example_defs)
  from c [rule_format, of 1 table_2019 "''Saude''"] h1
  have c1: "cell res 1 ''vl_despesa_Saude'' = Some 150.75"
    by (simp add: theme_column_def only_paid_filter example_defs)
  from c [rule_format, of 2 table_2020 "''Saude''"] h2
  have c2: "cell res 2 ''vl_despesa_Saude'' = Some 100.5"
    by (simp add: theme_column_def only_paid_filter example_defs)
  from r(1,2,3) cols c0 c1 c2 h1 h2 h3 h4 show ?thesis
    by auto
qed

text \<open>
  C10: in \<open>get_all_subthemes_historical\<close> the subthemes of a year are discovered on the
  paid-filtered table. If every record of a year's table with a given theme and subtheme
  is unpaid, the subtheme is not among those discovered for the theme, and the year's row
  of the result has no cell in the pair's column, unless a paid record of a requested theme
  has a pair that formats to the same column name.
\<close>

theorem unpaid_subtheme_gives_no_column:
  assumes "get_all_subthemes_historical get_expenses city years themes = Inr res"
    and "i < length years" and "get_expenses city (years ! i) = Inr df"
    and "\<forall>r \<in> set df. ds_funcao_governo r = theme \<and> ds_subfuncao_governo r = subtheme
            \<longrightarrow> tp_despesa r \<noteq> ''Valor Pago''"
  shows "subtheme \<notin> set (get_all_subthemes_of (only_paid df) theme)
     \<and> ((\<forall>r \<in> set (only_paid df). ds_funcao_governo r \<in> set themes \<longrightarrow>
            subtheme_column (ds_funcao_governo r) (ds_subfuncao_governo r)
              \<noteq> subtheme_column theme subtheme)
          \<longrightarrow> cell res i (subtheme_column theme subtheme) = None)"
proof (intro conjI impI)
  show "subtheme \<notin> set (get_all_subthemes_of (only_paid df) theme)"
    using assms(4) by (auto simp: set_get_all_subthemes_of only_paid_filter)
next
  assume n: "\<forall>r \<in> set (only_paid df). ds_funcao_governo r \<in> set themes \<longrightarrow>
            subtheme_column (ds_funcao_governo r) (ds_subfuncao_governo r)
              \<noteq> subtheme_column theme subtheme"
  have "all_subthemes_row (only_paid df) themes [] = Inr (frows res ! i)"
    using historical_row(1) [OF assms(1) [unfolded get_all_subthemes_historical_def] assms(2,3)] .
  from all_subthemes_row_keys [OF this]
  have "fst ` set (frows res ! i) =
     {subtheme_column t s | t s. t \<in> set themes \<and> s \<in> set (get_all_subthemes_of (only_paid df) t)}"
    by simp
  with n have "subtheme_column theme subtheme \<notin> fst ` set (frows res ! i)"
    by (auto simp: set_get_all_subthemes_of)
  then show "cell res i (subtheme_column theme subtheme) = None"
    by (simp add: cell_def map_of_eq_None_iff)
qed

theorem unpaid_subtheme_gives_no_column_witness:
  "get_all_subthemes_historical example_expenses ''sao-paulo'' [2019, 2020] [''Saude'']
      = Inr example_series
   \<and> 0 < length [2019, 2020 :: int]
   \<and> example_expenses ''sao-paulo'' ([2019, 2020] ! 0) = Inr table_2019
   \<and> filter (\<lambda>r. ds_funcao_governo r = ''Saude'' \<and> ds_subfuncao_governo r = ''Vigilancia''
               \<and> tp_despesa r = ''Valor Pago'') table_2019 = []
   \<and> subtheme_column ''Saude'' ''Vigilancia''
         \<notin> (\<lambda>r. subtheme_column (ds_funcao_governo r) (ds_subfuncao_governo r))
             ` set (filter (\<lambda>r. ds_funcao_governo r \<in> set [''Saude'']) (only_paid table_2019))
   \<and> ''Vigilancia'' \<notin> set (get_all_subthemes_of (only_paid table_2019) ''Saude'')
   \<and> cell example_series 0 (subtheme_column ''Saude'' ''Vigilancia'') = None"
proof -
  have h1: "get_all_subthemes_historical example_expenses ''sao-paulo'' [2019, 2020] [''Saude'']
      = Inr example_series"
    by (simp add: historical_defs example_defs example_series_def Let_def)
  have h2: "0 < length [2019, 2020 :: int]" by simp
  have h3: "example_expenses ''sao-paulo'' ([2019, 2020] ! 0) = Inr table_2019"
    by (simp add: example_expenses_def)
  have h4: "\<forall>r \<in> set table_2019.
         ds_funcao_governo r = ''Saude'' \<and> ds_subfuncao_governo r = ''Vigilancia''
           \<longrightarrow> tp_despesa r \<noteq> ''Valor Pago''"
    by (simp add: example_defs)
  have h5: "\<forall>r \<in> set (only_paid table_2019). ds_funcao_governo r \<in> set [''Saude''] \<longrightarrow>
            subtheme_column (ds_funcao_governo r) (ds_subfuncao_governo r)
              \<noteq> subtheme_column ''Saude'' ''Vigilancia''"
    by (simp add: only_paid_filter example_defs subtheme_column_def)
  from unpaid_subtheme_gives_no_column [OF h1 h2 h3 h4] h5
  have "''Vigilancia'' \<notin> set (get_all_subthemes_of (only_paid table_2019) ''Saude'')
     \<and> cell example_series 0 (subtheme_column ''Saude'' ''Vigilancia'') = None"
    by blast
  moreover have "filter (\<lambda>r. ds_funcao_governo r = ''Saude'' \<and> ds_subfuncao_governo r = ''Vigilancia''
               \<and> tp_despesa r = ''Valor Pago'') table_2019 = []"
    by (simp add: example_defs)
  moreover have "subtheme_column ''Saude'' ''Vigilancia''
         \<notin> (\<lambda>r. subtheme_column (ds_funcao_governo r) (ds_subfuncao_governo r))
             ` set (filter (\<lambda>r. ds_funcao_governo r \<in> set [''Saude'']) (only_paid table_2019))"
    by (simp add: only_paid_filter example_defs subtheme_column_def)
  ultimately show ?thesis
    using h1 h2 h3 by blast
qed

end
